theory Spec2Isabelle
  imports Main
begin

section \<open>The example script of Cursor-To-OpenAI-Nexus\<close>

text \<open>
  The repository is one Python script, \<^verbatim>\<open>example.py\<close>, whose function \<^verbatim>\<open>main\<close>
  parses five command line flags, builds an OpenAI client, prints a preamble, invokes the
  chat-completion operation of the client and prints the answer. The script has two
  kinds of effect, writing to the standard output and calling the client library; the
  model records both, in the order in which they happen, in a trace of events. The
  client library is not part of the repository: it is a parameter of the run, which
  says whether the constructor raises, what an invocation returns or raises, and how
  many requests the library sent to the endpoint for it. An exception that leaves
  \<^verbatim>\<open>main\<close> is a value: the run returns the trace produced so far together with
  the error raised, if any.
\<close>

subsection \<open>Strings and integers as Python prints them\<close>

abbreviation nl :: string where
  "nl \<equiv> [CHR 0x0A]"

text \<open>\<^verbatim>\<open>str(n)\<close> for a Python integer: decimal digits, with a minus sign when negative.\<close>

fun str_nat :: "nat \<Rightarrow> string" where
  "str_nat n =
     (if n < 10 then [''0123456789'' ! n]
      else str_nat (n div 10) @ [''0123456789'' ! (n mod 10)])"

declare str_nat.simps [simp del]

definition str_int :: "int \<Rightarrow> string" where
  "str_int i = (if i < 0 then ''-'' @ str_nat (nat (- i)) else str_nat (nat i))"

subsection \<open>Command line and environment\<close>

text \<open>
  The process environment is a dictionary; \<^verbatim>\<open>os.environ.get(k, d)\<close> is the value of
  \<open>k\<close> when it is set (also when it is set to the empty string) and \<open>d\<close> otherwise.
\<close>

type_synonym environ = "string \<rightharpoonup> string"

definition environ_get :: "environ \<Rightarrow> string \<Rightarrow> string \<Rightarrow> string" where
  "environ_get env k d = (case env k of None \<Rightarrow> d | Some v \<Rightarrow> v)"

text \<open>
  The command line as \<^verbatim>\<open>argparse\<close> reads it: for each of the four string flags the
  value given, if the flag was given, and for \<^verbatim>\<open>--stream\<close> whether it was given.
  The tokenisation of \<^verbatim>\<open>sys.argv\<close> is the library's and is not modelled.
\<close>

record cli =
  opt_api_key :: "string option"
  opt_base_url :: "string option"
  opt_model :: "string option"
  opt_prompt :: "string option"
  opt_stream :: bool

text \<open>The namespace \<^verbatim>\<open>args\<close> returned by \<^verbatim>\<open>parser.parse_args()\<close>.\<close>

record args =
  api_key :: string
  base_url :: string
  model :: string
  prompt :: string
  stream :: bool

text \<open>An argument declared with \<^verbatim>\<open>default=d\<close>: the value given, else the default.\<close>

definition add_argument :: "string option \<Rightarrow> string \<Rightarrow> string" where
  "add_argument given d = (case given of Some v \<Rightarrow> v | None \<Rightarrow> d)"

text \<open>Lines 15 to 26 of \<^verbatim>\<open>example.py\<close>.\<close>

definition parse_args :: "cli \<Rightarrow> environ \<Rightarrow> args" where
  "parse_args c env =
     \<lparr> api_key = add_argument (opt_api_key c)
                   (environ_get env ''CURSOR_API_KEY'' ''sk-cursor-api-key''),
       base_url = add_argument (opt_base_url c)
                    (environ_get env ''CURSOR_BASE_URL'' ''http://localhost:3010/v1''),
       model = add_argument (opt_model c) ''claude-3.7-sonnet-thinking'',
       prompt = add_argument (opt_prompt c) ''Explain quantum computing in simple terms.'',
       stream = opt_stream c \<rparr>"

subsection \<open>Client, request and responses\<close>

record client =
  client_api_key :: string
  client_base_url :: string

record message =
  role :: string
  content :: string

text \<open>The keyword arguments of \<^verbatim>\<open>client.chat.completions.create\<close>.\<close>

record request =
  req_model :: string
  req_messages :: "message list"
  req_stream :: bool

text \<open>
  The objects the client library returns, with the fields that \<^verbatim>\<open>main\<close> reads:
  \<^verbatim>\<open>response.choices[0].message.content\<close>, \<^verbatim>\<open>response.model\<close> and the three
  counts of \<^verbatim>\<open>response.usage\<close> for a full response, and
  \<^verbatim>\<open>chunk.choices[0].delta.content\<close>, which may be \<^verbatim>\<open>None\<close>, for a chunk of a
  stream. The lists of choices may be empty, and \<^verbatim>\<open>response.usage\<close> may be
  \<^verbatim>\<open>None\<close>.
\<close>

record completion_usage =
  prompt_tokens :: int
  completion_tokens :: int
  total_tokens :: int

record choice =
  message :: message

record chat_completion =
  choices :: "choice list"
  resp_model :: string
  usage :: "completion_usage option"

record chunk_choice =
  delta_content :: "string option"

record chunk =
  chunk_choices :: "chunk_choice list"

text \<open>
  What the library raises from an invocation, and the exceptions of a run: the
  constructor's \<^verbatim>\<open>OpenAIError\<close>, a failure of an invocation or of the stream,
  \<^verbatim>\<open>IndexError\<close> from \<^verbatim>\<open>choices[0]\<close> and \<^verbatim>\<open>AttributeError\<close> from reading a
  count of a usage that is \<^verbatim>\<open>None\<close>.
\<close>

datatype api_failure = TransportFailure | AuthenticationFailure | MalformedResponse

datatype error = OpenAIError | APIError api_failure | IndexError | AttributeError

text \<open>
  A stream is read lazily by the loop of \<^verbatim>\<open>main\<close>: it delivers its chunks one by
  one and then either ends or raises a failure.
\<close>

type_synonym chunk_stream = "chunk list \<times> api_failure option"

text \<open>
  The client library. \<open>rejects l k u\<close> says that the constructor raises for the
  credential \<open>k\<close> and the base address \<open>u\<close>. An invocation of
  \<^verbatim>\<open>client.chat.completions.create\<close> gives the number of requests that the library
  sent to the endpoint on its behalf (the library retries by itself) and what the
  invocation raises or returns: a full response when \<^verbatim>\<open>stream=False\<close>, a stream
  when \<^verbatim>\<open>stream=True\<close>.
\<close>

record library =
  rejects :: "string \<Rightarrow> string \<Rightarrow> bool"
  create :: "client \<Rightarrow> request \<Rightarrow> nat \<times> (api_failure + chat_completion)"
  create_stream :: "client \<Rightarrow> request \<Rightarrow> nat \<times> (api_failure + chunk_stream)"

text \<open>Lines 29 to 32, the constructor.\<close>

definition OpenAI :: "library \<Rightarrow> string \<Rightarrow> string \<Rightarrow> error + client" where
  "OpenAI l k u =
     (if rejects l k u then Inl OpenAIError
      else Inr \<lparr> client_api_key = k, client_base_url = u \<rparr>)"

subsection \<open>Effects\<close>

text \<open>
  The events of a run: the call of the constructor with its two arguments, a
  \<^verbatim>\<open>print\<close>, and an invocation of \<^verbatim>\<open>client.chat.completions.create\<close> with the
  number of requests the library sent for it.
\<close>

datatype event = Construct string string | Print string | Create client request nat

text \<open>
  \<^verbatim>\<open>print(s, end=e)\<close> writes \<open>s\<close> followed by \<open>e\<close>; \<^verbatim>\<open>print(s)\<close> is
  \<^verbatim>\<open>print(s, end="\n")\<close>.
\<close>

definition print_end :: "string \<Rightarrow> string \<Rightarrow> event list \<Rightarrow> event list" where
  "print_end s e tr = tr @ [Print (s @ e)]"

definition print :: "string \<Rightarrow> event list \<Rightarrow> event list" where
  "print s tr = print_end s nl tr"

text \<open>
  What a trace leaves on the standard output, the constructor calls and the invocations
  it holds, and the number of requests sent to the endpoint.
\<close>

fun printed :: "event \<Rightarrow> string" where
  "printed (Print s) = s"
| "printed (Construct k u) = []"
| "printed (Create c q n) = []"

definition stdout_of :: "event list \<Rightarrow> string" where
  "stdout_of tr = concat (map printed tr)"

fun constructor_call_of :: "event \<Rightarrow> (string \<times> string) list" where
  "constructor_call_of (Construct k u) = [(k, u)]"
| "constructor_call_of (Print s) = []"
| "constructor_call_of (Create c q n) = []"

definition constructor_calls_of :: "event list \<Rightarrow> (string \<times> string) list" where
  "constructor_calls_of tr = concat (map constructor_call_of tr)"

fun call_of :: "event \<Rightarrow> (client \<times> request) list" where
  "call_of (Create c q n) = [(c, q)]"
| "call_of (Construct k u) = []"
| "call_of (Print s) = []"

definition calls_of :: "event list \<Rightarrow> (client \<times> request) list" where
  "calls_of tr = concat (map call_of tr)"

fun sent :: "event \<Rightarrow> nat" where
  "sent (Create c q n) = n"
| "sent (Construct k u) = 0"
| "sent (Print s) = 0"

definition requests_sent :: "event list \<Rightarrow> nat" where
  "requests_sent tr = sum_list (map sent tr)"

text \<open>An exception that nothing catches ends the interpreter with status 1.\<close>

fun exit_status :: "error option \<Rightarrow> nat" where
  "exit_status None = 0"
| "exit_status (Some e) = 1"

subsection \<open>The function \<^verbatim>\<open>main\<close>\<close>

text \<open>
  Lines 49 to 51, the loop over the stream: \<^verbatim>\<open>chunk.choices[0]\<close> raises
  \<^verbatim>\<open>IndexError\<close> on an empty list, which ends the loop with what was printed so
  far, and so does a failure that the stream raises after its last chunk.
\<close>

fun consume ::
  "chunk list \<Rightarrow> api_failure option \<Rightarrow> event list \<Rightarrow> event list \<times> error option" where
  "consume [] fin tr =
     (case fin of None \<Rightarrow> (tr, None) | Some f \<Rightarrow> (tr, Some (APIError f)))"
| "consume (c # cs) fin tr =
     (case chunk_choices c of
        [] \<Rightarrow> (tr, Some IndexError)
      | ch # _ \<Rightarrow>
          (case delta_content ch of
             None \<Rightarrow> consume cs fin tr
           | Some s \<Rightarrow> consume cs fin (print_end s [] tr)))"

text \<open>Lines 29 to 69.\<close>

definition run :: "args \<Rightarrow> library \<Rightarrow> event list \<times> error option" where
  "run a l =
     (let t0 = [Construct (api_key a) (base_url a)]
      in case OpenAI l (api_key a) (base_url a) of
           Inl e \<Rightarrow> (t0, Some e)
         | Inr cl \<Rightarrow>
     (let t1 = print (''Sending request to '' @ model a @ ''...'') t0;
          t2 = print (''Prompt: '' @ prompt a) t1;
          t3 = print (concat (replicate 50 ''-'')) t2
      in if stream a then
           (let q = \<lparr> req_model = model a,
                      req_messages = [\<lparr> role = ''user'', content = prompt a \<rparr>],
                      req_stream = True \<rparr>;
                t4 = t3 @ [Create cl q (fst (create_stream l cl q))]
            in case snd (create_stream l cl q) of
                 Inl f \<Rightarrow> (t4, Some (APIError f))
               | Inr (chunks, fin) \<Rightarrow>
                   (case consume chunks fin t4 of
                      (t5, Some e) \<Rightarrow> (t5, Some e)
                    | (t5, None) \<Rightarrow> (print nl t5, None)))
         else
           (let q = \<lparr> req_model = model a,
                      req_messages = [\<lparr> role = ''user'', content = prompt a \<rparr>],
                      req_stream = False \<rparr>;
                t4 = t3 @ [Create cl q (fst (create l cl q))]
            in case snd (create l cl q) of
                 Inl f \<Rightarrow> (t4, Some (APIError f))
               | Inr response \<Rightarrow>
                   (case choices response of
                      [] \<Rightarrow> (t4, Some IndexError)
                    | ch # _ \<Rightarrow>
                        (let t5 = print (content (message ch)) t4;
                             t6 = print (concat (replicate 50 ''-'')) t5;
                             t7 = print (''Model: '' @ resp_model response) t6
                         in case usage response of
                              None \<Rightarrow> (t7, Some AttributeError)
                            | Some u \<Rightarrow>
                                (let t8 = print (''Completion tokens: ''
                                            @ str_int (completion_tokens u)) t7;
                                     t9 = print (''Prompt tokens: ''
                                            @ str_int (prompt_tokens u)) t8;
                                     t10 = print (''Total tokens: ''
                                             @ str_int (total_tokens u)) t9
                                 in (t10, None)))))))"

definition main :: "cli \<Rightarrow> environ \<Rightarrow> library \<Rightarrow> event list \<times> error option" where
  "main c env l = run (parse_args c env) l"

text \<open>
  The client and the request that a run with the arguments \<open>a\<close> builds, and the
  events with which a run starts when the constructor returns: the call of the
  constructor, the three prints of lines 34 to 36, and the invocation.
\<close>

abbreviation the_client :: "args \<Rightarrow> client" where
  "the_client a \<equiv> \<lparr> client_api_key = api_key a, client_base_url = base_url a \<rparr>"

abbreviation the_request :: "args \<Rightarrow> request" where
  "the_request a \<equiv>
     \<lparr> req_model = model a,
       req_messages = [\<lparr> role = ''user'', content = prompt a \<rparr>],
       req_stream = stream a \<rparr>"

abbreviation preamble :: "args \<Rightarrow> event list" where
  "preamble a \<equiv>
     [Print (''Sending request to '' @ model a @ ''...'' @ nl),
      Print (''Prompt: '' @ prompt a @ nl),
      Print (replicate 50 CHR ''-'' @ nl)]"

abbreviation prologue :: "args \<Rightarrow> nat \<Rightarrow> event list" where
  "prologue a n \<equiv>
     Construct (api_key a) (base_url a) # preamble a
       @ [Create (the_client a) (the_request a) n]"

text \<open>
  The content fragments that a sequence of chunks carries: for each chunk the content of
  the delta of its first choice, the chunks whose content is \<^verbatim>\<open>None\<close> left out.
\<close>

abbreviation fragments :: "chunk list \<Rightarrow> string list" where
  "fragments cs \<equiv> List.map_filter (\<lambda>c. delta_content (hd (chunk_choices c))) cs"

subsection \<open>Sample inputs\<close>

text \<open>
  A library whose constructor raises for an empty credential and whose invocations
  give \<open>r\<close> without streaming and \<open>s\<close> with streaming.
\<close>

definition library_with ::
  "nat \<times> (api_failure + chat_completion) \<Rightarrow> nat \<times> (api_failure + chunk_stream) \<Rightarrow> library"
  where
  "library_with r s =
     \<lparr> rejects = (\<lambda>k u. k = []), create = (\<lambda>c q. r), create_stream = (\<lambda>c q. s) \<rparr>"

text \<open>
  The answer \<open>Hello\<close> with 5 prompt tokens, 2 completion tokens and 7 tokens in total;
  the stream \<open>Hel\<close>, a chunk without content, \<open>lo\<close>; a stream whose second chunk
  has no choice.
\<close>

definition hello_response :: chat_completion where
  "hello_response =
     \<lparr> choices = [\<lparr> message = \<lparr> role = ''assistant'', content = ''Hello'' \<rparr> \<rparr>],
       resp_model = ''gpt'',
       usage = Some \<lparr> prompt_tokens = 5, completion_tokens = 2, total_tokens = 7 \<rparr> \<rparr>"

definition hello_chunks :: "chunk list" where
  "hello_chunks =
     [\<lparr> chunk_choices = [\<lparr> delta_content = Some ''Hel'' \<rparr>] \<rparr>,
      \<lparr> chunk_choices = [\<lparr> delta_content = None \<rparr>] \<rparr>,
      \<lparr> chunk_choices = [\<lparr> delta_content = Some ''lo'' \<rparr>] \<rparr>]"

definition gap_chunks :: "chunk list" where
  "gap_chunks =
     [\<lparr> chunk_choices = [\<lparr> delta_content = Some ''a'' \<rparr>] \<rparr>,
      \<lparr> chunk_choices = [] \<rparr>,
      \<lparr> chunk_choices = [\<lparr> delta_content = Some ''b'' \<rparr>] \<rparr>]"

text \<open>
  A library that answers; one whose invocations raise, without streaming after three
  requests; one that returns a response without usage, or a stream that breaks after
  its first chunk; one whose stream is \<open>gap_chunks\<close>.
\<close>

definition hello_library :: library where
  "hello_library = library_with (1, Inr hello_response) (1, Inr (hello_chunks, None))"

definition failing_library :: library where
  "failing_library = library_with (3, Inl TransportFailure) (1, Inl AuthenticationFailure)"

definition partial_library :: library where
  "partial_library =
     library_with (1, Inr (hello_response \<lparr> usage := None \<rparr>))
       (1, Inr ([\<lparr> chunk_choices = [\<lparr> delta_content = Some ''Hel'' \<rparr>] \<rparr>],
                Some TransportFailure))"

definition gap_library :: library where
  "gap_library = library_with (1, Inr hello_response) (1, Inr (gap_chunks, None))"

text \<open>
  A command line without flags, one whose \<^verbatim>\<open>--api-key\<close> is the empty string, and
  arguments with a short model and prompt.
\<close>

definition no_flags :: cli where
  "no_flags =
     \<lparr> opt_api_key = None, opt_base_url = None, opt_model = None, opt_prompt = None,
       opt_stream = False \<rparr>"

definition empty_key_cli :: cli where
  "empty_key_cli =
     \<lparr> opt_api_key = Some [], opt_base_url = None, opt_model = None, opt_prompt = None,
       opt_stream = False \<rparr>"

definition hi_args :: "bool \<Rightarrow> args" where
  "hi_args s =
     \<lparr> api_key = ''k'', base_url = ''u'', model = ''m'', prompt = ''Hi'', stream = s \<rparr>"

section \<open>Properties\<close>

subsection \<open>Auxiliary facts\<close>

lemma dashes: "concat (replicate 50 ''-'') = replicate 50 CHR ''-''"
  by (simp add: numeral_eq_Suc)

lemma stdout_of_prints: "stdout_of (map Print ps) = concat ps"
  by (induction ps) (simp_all add: stdout_of_def)

lemma stdout_of_append: "stdout_of (xs @ ys) = stdout_of xs @ stdout_of ys"
  by (simp add: stdout_of_def)

lemma calls_of_append: "calls_of (xs @ ys) = calls_of xs @ calls_of ys"
  by (simp add: calls_of_def)

lemma calls_of_prints: "calls_of (map Print ps) = []"
  by (induction ps) (simp_all add: calls_of_def)

lemma requests_sent_append: "requests_sent (xs @ ys) = requests_sent xs + requests_sent ys"
  by (simp add: requests_sent_def)

lemma requests_sent_prints: "requests_sent (map Print ps) = 0"
  by (induction ps) (simp_all add: requests_sent_def)

lemma constructor_calls_of_append:
  "constructor_calls_of (xs @ ys) = constructor_calls_of xs @ constructor_calls_of ys"
  by (simp add: constructor_calls_of_def)

lemma constructor_calls_of_prints: "constructor_calls_of (map Print ps) = []"
  by (induction ps) (simp_all add: constructor_calls_of_def)

text \<open>The loop only prints.\<close>

lemma consume_extends:
  "\<exists>ps. fst (consume cs fin tr) = tr @ map Print ps"
proof (induction cs arbitrary: tr)
  case Nil
  have "fst (consume [] fin tr) = tr @ map Print []"
    by (simp split: option.splits)
  then show ?case by blast
next
  case (Cons c cs)
  show ?case
  proof (cases "chunk_choices c")
    case Nil
    then have "fst (consume (c # cs) fin tr) = tr @ map Print []" by simp
    then show ?thesis by blast
  next
    case (Cons ch rest)
    show ?thesis
    proof (cases "delta_content ch")
      case None
      with Cons Cons.IH [of tr] show ?thesis by simp
    next
      case (Some s)
      from Cons.IH [of "tr @ [Print s]"] obtain ps
        where "fst (consume cs fin (tr @ [Print s])) = (tr @ [Print s]) @ map Print ps"
        by blast
      with Cons Some have "fst (consume (c # cs) fin tr) = tr @ map Print (s # ps)"
        by (simp add: print_end_def)
      then show ?thesis by blast
    qed
  qed
qed

lemma consume_wellformed:
  "\<forall>c\<in>set cs. chunk_choices c \<noteq> [] \<Longrightarrow>
   consume cs fin tr = (tr @ map Print (fragments cs), map_option APIError fin)"
proof (induction cs arbitrary: tr)
  case Nil
  show ?case by (simp add: List.map_filter_simps split: option.splits)
next
  case (Cons c cs)
  then obtain ch rest where ch: "chunk_choices c = ch # rest"
    by (cases "chunk_choices c") auto
  from Cons.prems have rest: "\<forall>c\<in>set cs. chunk_choices c \<noteq> []" by simp
  show ?case
  proof (cases "delta_content ch")
    case None
    with ch Cons.IH [OF rest, of tr] show ?thesis
      by (simp add: List.map_filter_simps)
  next
    case (Some s)
    with ch Cons.IH [OF rest, of "tr @ [Print s]"] show ?thesis
      by (simp add: List.map_filter_simps print_end_def)
  qed
qed

lemma consume_empty_choices:
  "\<exists>c\<in>set cs. chunk_choices c = [] \<Longrightarrow> snd (consume cs fin tr) = Some IndexError"
proof (induction cs arbitrary: tr)
  case Nil
  then show ?case by simp
next
  case (Cons c cs)
  show ?case
  proof (cases "chunk_choices c")
    case Nil
    then show ?thesis by simp
  next
    case (Cons ch rest)
    with Cons.prems have "\<exists>c\<in>set cs. chunk_choices c = []" by auto
    with Cons.IH Cons show ?thesis by (simp split: option.splits)
  qed
qed

text \<open>The run, branch by branch.\<close>

lemma run_rejected:
  assumes "rejects l (api_key a) (base_url a)"
  shows "run a l = ([Construct (api_key a) (base_url a)], Some OpenAIError)"
  using assms by (simp add: run_def Let_def OpenAI_def)

lemma run_stream_eq:
  assumes "\<not> rejects l (api_key a) (base_url a)"
    and "stream a"
    and "snd (create_stream l (the_client a) (the_request a)) = Inr (chunks, fin)"
  shows "run a l =
    (case consume chunks fin
            (prologue a (fst (create_stream l (the_client a) (the_request a)))) of
       (t5, Some e) \<Rightarrow> (t5, Some e)
     | (t5, None) \<Rightarrow> (t5 @ [Print [CHR 0x0A, CHR 0x0A]], None))"
  using assms by (simp add: run_def Let_def OpenAI_def print_def print_end_def dashes)

lemma run_stream_failure_eq:
  assumes "\<not> rejects l (api_key a) (base_url a)"
    and "stream a"
    and "snd (create_stream l (the_client a) (the_request a)) = Inl f"
  shows "run a l =
    (prologue a (fst (create_stream l (the_client a) (the_request a))), Some (APIError f))"
  using assms by (simp add: run_def Let_def OpenAI_def print_def print_end_def dashes)

lemma run_plain_failure_eq:
  assumes "\<not> rejects l (api_key a) (base_url a)"
    and "\<not> stream a"
    and "snd (create l (the_client a) (the_request a)) = Inl f"
  shows "run a l =
    (prologue a (fst (create l (the_client a) (the_request a))), Some (APIError f))"
  using assms by (simp add: run_def Let_def OpenAI_def print_def print_end_def dashes)

lemma run_plain_eq:
  assumes "\<not> rejects l (api_key a) (base_url a)"
    and "\<not> stream a"
    and "snd (create l (the_client a) (the_request a)) = Inr resp"
  shows "run a l =
    (case choices resp of
       [] \<Rightarrow> (prologue a (fst (create l (the_client a) (the_request a))), Some IndexError)
     | ch # _ \<Rightarrow>
        (case usage resp of
           None \<Rightarrow>
             (prologue a (fst (create l (the_client a) (the_request a))) @
                [Print (content (message ch) @ nl),
                 Print (replicate 50 CHR ''-'' @ nl),
                 Print (''Model: '' @ resp_model resp @ nl)],
              Some AttributeError)
         | Some u \<Rightarrow>
             (prologue a (fst (create l (the_client a) (the_request a))) @
                [Print (content (message ch) @ nl),
                 Print (replicate 50 CHR ''-'' @ nl),
                 Print (''Model: '' @ resp_model resp @ nl),
                 Print (''Completion tokens: '' @ str_int (completion_tokens u) @ nl),
                 Print (''Prompt tokens: '' @ str_int (prompt_tokens u) @ nl),
                 Print (''Total tokens: '' @ str_int (total_tokens u) @ nl)],
              None)))"
  using assms
  by (simp add: run_def Let_def OpenAI_def print_def print_end_def dashes
        split: list.splits option.splits)

text \<open>
  When the constructor returns, the trace of a run is the prologue followed by prints.
\<close>

lemma run_shape:
  assumes "\<not> rejects l (api_key a) (base_url a)"
  shows "\<exists>ps. fst (run a l) =
    prologue a (if stream a then fst (create_stream l (the_client a) (the_request a))
               else fst (create l (the_client a) (the_request a))) @ map Print ps"
proof -
  define n where "n = (if stream a then fst (create_stream l (the_client a) (the_request a))
                       else fst (create l (the_client a) (the_request a)))"
  have "\<exists>ps. fst (run a l) = prologue a n @ map Print ps"
  proof (cases "stream a")
    case True
    then have n: "fst (create_stream l (the_client a) (the_request a)) = n"
      by (simp add: n_def)
    show ?thesis
    proof (cases "snd (create_stream l (the_client a) (the_request a))")
      case (Inl f)
      with assms True n have "fst (run a l) = prologue a n @ map Print []"
        by (simp add: run_stream_failure_eq)
      then show ?thesis by (rule exI)
    next
      case (Inr s)
      obtain chunks fin where s: "s = (chunks, fin)" by (cases s)
      from consume_extends [of chunks fin "prologue a n"] obtain ps
        where ps: "fst (consume chunks fin (prologue a n)) = prologue a n @ map Print ps" ..
      obtain t5 e where k: "consume chunks fin (prologue a n) = (t5, e)"
        by (cases "consume chunks fin (prologue a n)")
      with ps have t5: "t5 = prologue a n @ map Print ps" by simp
      show ?thesis
      proof (cases e)
        case None
        with assms True Inr s k t5 n
        have "fst (run a l) = prologue a n @ map Print (ps @ [[CHR 0x0A, CHR 0x0A]])"
          by (simp add: run_stream_eq)
        then show ?thesis by (rule exI)
      next
        case (Some x)
        with assms True Inr s k t5 n
        have "fst (run a l) = prologue a n @ map Print ps"
          by (simp add: run_stream_eq)
        then show ?thesis by (rule exI)
      qed
    qed
  next
    case False
    then have n: "fst (create l (the_client a) (the_request a)) = n"
      by (simp add: n_def)
    show ?thesis
    proof (cases "snd (create l (the_client a) (the_request a))")
      case (Inl f)
      with assms False n have "fst (run a l) = prologue a n @ map Print []"
        by (simp add: run_plain_failure_eq)
      then show ?thesis by (rule exI)
    next
      case (Inr resp)
      show ?thesis
      proof (cases "choices resp")
        case Nil
        with assms False Inr n have "fst (run a l) = prologue a n @ map Print []"
          by (simp add: run_plain_eq)
        then show ?thesis by (rule exI)
      next
        case (Cons ch rest)
        show ?thesis
        proof (cases "usage resp")
          case None
          with assms False Inr Cons n
          have "fst (run a l) = prologue a n @ map Print
                  [content (message ch) @ nl, replicate 50 CHR ''-'' @ nl,
                   ''Model: '' @ resp_model resp @ nl]"
            by (simp add: run_plain_eq)
          then show ?thesis by (rule exI)
        next
          case (Some u)
          with assms False Inr Cons n
          have "fst (run a l) = prologue a n @ map Print
                  [content (message ch) @ nl, replicate 50 CHR ''-'' @ nl,
                   ''Model: '' @ resp_model resp @ nl,
                   ''Completion tokens: '' @ str_int (completion_tokens u) @ nl,
                   ''Prompt tokens: '' @ str_int (prompt_tokens u) @ nl,
                   ''Total tokens: '' @ str_int (total_tokens u) @ nl]"
            by (simp add: run_plain_eq)
          then show ?thesis by (rule exI)
        qed
      qed
    qed
  qed
  then show ?thesis by (simp only: n_def)
qed

lemma calls_of_run:
  assumes "\<not> rejects l (api_key a) (base_url a)"
  shows "calls_of (fst (run a l)) = [(the_client a, the_request a)]"
proof -
  from run_shape [OF assms] obtain ps
    where "fst (run a l) =
      prologue a (if stream a then fst (create_stream l (the_client a) (the_request a))
                  else fst (create l (the_client a) (the_request a))) @ map Print ps" ..
  then show ?thesis
    by (simp add: calls_of_append calls_of_prints) (simp add: calls_of_def)
qed

lemma calls_of_run_rejected:
  assumes "rejects l (api_key a) (base_url a)"
  shows "calls_of (fst (run a l)) = []"
  using assms by (simp add: run_rejected calls_of_def)

lemma requests_sent_run:
  assumes "\<not> rejects l (api_key a) (base_url a)"
  shows "requests_sent (fst (run a l)) =
    (if stream a then fst (create_stream l (the_client a) (the_request a))
     else fst (create l (the_client a) (the_request a)))"
proof -
  from run_shape [OF assms] obtain ps
    where "fst (run a l) =
      prologue a (if stream a then fst (create_stream l (the_client a) (the_request a))
                  else fst (create l (the_client a) (the_request a))) @ map Print ps" ..
  then show ?thesis
    by (simp add: requests_sent_append requests_sent_prints) (simp add: requests_sent_def)
qed

lemma constructor_calls_of_run:
  "constructor_calls_of (fst (run a l)) = [(api_key a, base_url a)]"
proof (cases "rejects l (api_key a) (base_url a)")
  case True
  then show ?thesis by (simp add: run_rejected constructor_calls_of_def)
next
  case False
  from run_shape [OF False] obtain ps
    where "fst (run a l) =
      prologue a (if stream a then fst (create_stream l (the_client a) (the_request a))
                  else fst (create l (the_client a) (the_request a))) @ map Print ps" ..
  then show ?thesis
    by (simp add: constructor_calls_of_append constructor_calls_of_prints)
       (simp add: constructor_calls_of_def)
qed


subsection \<open>The call\<close>

text \<open>
  C1, as the code has it. When the constructor of line 29 returns, the trace of a run
  holds exactly one invocation of \<^verbatim>\<open>client.chat.completions.create\<close>, whatever it
  returns or raises, made through the client built from the credential and the base
  address; its request carries the configured model, a list of exactly one message with
  role \<open>user\<close> and the configured prompt as content, and a streaming boolean equal to
  the streaming flag. The requests sent to the endpoint are those that the library
  sends for this one invocation. When the constructor raises, the run makes no
  invocation and sends no request.
\<close>

theorem run_one_call:
  "(\<not> rejects l (api_key a) (base_url a) \<longrightarrow>
      calls_of (fst (run a l)) =
        [(\<lparr> client_api_key = api_key a, client_base_url = base_url a \<rparr>,
          \<lparr> req_model = model a,
            req_messages = [\<lparr> role = ''user'', content = prompt a \<rparr>],
            req_stream = stream a \<rparr>)]
      \<and> requests_sent (fst (run a l)) =
        (if stream a then fst (create_stream l (the_client a) (the_request a))
         else fst (create l (the_client a) (the_request a))))
   \<and> (rejects l (api_key a) (base_url a) \<longrightarrow>
        calls_of (fst (run a l)) = [] \<and> requests_sent (fst (run a l)) = 0)"
proof (cases "rejects l (api_key a) (base_url a)")
  case True
  then have "run a l = ([Construct (api_key a) (base_url a)], Some OpenAIError)"
    by (rule run_rejected)
  with True show ?thesis by (simp add: calls_of_def requests_sent_def)
next
  case False
  with calls_of_run [OF False] requests_sent_run [OF False] show ?thesis by simp
qed

theorem run_one_call_witness:
  "calls_of (fst (run (hi_args True) hello_library)) =
     [(\<lparr> client_api_key = ''k'', client_base_url = ''u'' \<rparr>,
       \<lparr> req_model = ''m'', req_messages = [\<lparr> role = ''user'', content = ''Hi'' \<rparr>],
         req_stream = True \<rparr>)]
   \<and> requests_sent (fst (run (hi_args True) hello_library)) = 1
   \<and> calls_of (fst (run (parse_args empty_key_cli Map.empty) hello_library)) = []"
  using run_one_call [of hello_library "hi_args True"]
    run_one_call [of hello_library "parse_args empty_key_cli Map.empty"]
  by (simp add: hi_args_def hello_library_def library_with_def empty_key_cli_def
        parse_args_def add_argument_def environ_get_def)

text \<open>
  C1 as stated fails. With \<^verbatim>\<open>--api-key ""\<close> and a constructor that raises for an
  empty credential the run ends with status 1 and no invocation; and one invocation is
  not one request: for the invocation of a run against an endpoint that fails, a library
  that retries sends three.
\<close>

theorem run_one_call_counterexample:
  "calls_of (fst (main empty_key_cli Map.empty hello_library)) = []
   \<and> exit_status (snd (main empty_key_cli Map.empty hello_library)) = 1
   \<and> calls_of (fst (run (hi_args False) failing_library)) =
       [(\<lparr> client_api_key = ''k'', client_base_url = ''u'' \<rparr>,
         \<lparr> req_model = ''m'', req_messages = [\<lparr> role = ''user'', content = ''Hi'' \<rparr>],
           req_stream = False \<rparr>)]
   \<and> requests_sent (fst (run (hi_args False) failing_library)) = 3"
  by (simp add: main_def run_def Let_def OpenAI_def print_def print_end_def calls_of_def
        requests_sent_def parse_args_def add_argument_def environ_get_def empty_key_cli_def
        hello_library_def failing_library_def library_with_def hi_args_def)




subsection \<open>Arguments\<close>

text \<open>
  C5. Without \<^verbatim>\<open>--model\<close> the model of every request that the run sends is the
  default literal, and without \<^verbatim>\<open>--prompt\<close> the content of its message is the
  default prompt; when the constructor returns there is exactly one such request.
\<close>

theorem default_model_and_prompt:
  "(opt_model c = None \<longrightarrow>
      set (map (req_model \<circ> snd) (calls_of (fst (main c env l))))
        \<subseteq> {''claude-3.7-sonnet-thinking''}
      \<and> (\<not> rejects l (api_key (parse_args c env)) (base_url (parse_args c env)) \<longrightarrow>
           map (req_model \<circ> snd) (calls_of (fst (main c env l))) =
             [''claude-3.7-sonnet-thinking'']))
   \<and> (opt_prompt c = None \<longrightarrow>
      set (map (map content \<circ> req_messages \<circ> snd) (calls_of (fst (main c env l))))
        \<subseteq> {[''Explain quantum computing in simple terms.'']}
      \<and> (\<not> rejects l (api_key (parse_args c env)) (base_url (parse_args c env)) \<longrightarrow>
           map (map content \<circ> req_messages \<circ> snd) (calls_of (fst (main c env l))) =
             [[''Explain quantum computing in simple terms.'']]))"
proof (cases "rejects l (api_key (parse_args c env)) (base_url (parse_args c env))")
  case True
  then show ?thesis by (simp add: main_def calls_of_run_rejected)
next
  case False
  then show ?thesis
    by (simp add: main_def calls_of_run) (simp add: parse_args_def add_argument_def)
qed

theorem default_model_and_prompt_witness:
  "map (req_model \<circ> snd) (calls_of (fst (main no_flags Map.empty failing_library))) =
     [''claude-3.7-sonnet-thinking'']
   \<and> map (map content \<circ> req_messages \<circ> snd)
        (calls_of (fst (main no_flags Map.empty failing_library))) =
     [[''Explain quantum computing in simple terms.'']]"
  using default_model_and_prompt [of no_flags Map.empty failing_library]
  by (simp add: no_flags_def failing_library_def library_with_def parse_args_def
        add_argument_def environ_get_def)

text \<open>
  C6. The credential and the base address with which the constructor is called, and
  so those of the client through which the invocation is made, are the value of the
  flag when it is given, else the value of the environment variable when it is set,
  else the literal. Without \<^verbatim>\<open>--stream\<close> no request streams.
\<close>

theorem flag_precedence:
  "constructor_calls_of (fst (main c env l)) =
     [((case opt_api_key c of
          Some v \<Rightarrow> v
        | None \<Rightarrow> (case env ''CURSOR_API_KEY'' of
                     Some v \<Rightarrow> v
                   | None \<Rightarrow> ''sk-cursor-api-key'')),
       (case opt_base_url c of
          Some v \<Rightarrow> v
        | None \<Rightarrow> (case env ''CURSOR_BASE_URL'' of
                     Some v \<Rightarrow> v
                   | None \<Rightarrow> ''http://localhost:3010/v1'')))]
   \<and> (\<not> rejects l (api_key (parse_args c env)) (base_url (parse_args c env)) \<longrightarrow>
        map fst (calls_of (fst (main c env l))) =
          [\<lparr> client_api_key =
               (case opt_api_key c of
                  Some v \<Rightarrow> v
                | None \<Rightarrow> (case env ''CURSOR_API_KEY'' of
                             Some v \<Rightarrow> v
                           | None \<Rightarrow> ''sk-cursor-api-key'')),
             client_base_url =
               (case opt_base_url c of
                  Some v \<Rightarrow> v
                | None \<Rightarrow> (case env ''CURSOR_BASE_URL'' of
                             Some v \<Rightarrow> v
                           | None \<Rightarrow> ''http://localhost:3010/v1'')) \<rparr>])
   \<and> (\<not> opt_stream c \<longrightarrow>
        set (map (req_stream \<circ> snd) (calls_of (fst (main c env l)))) \<subseteq> {False}
        \<and> (\<not> rejects l (api_key (parse_args c env)) (base_url (parse_args c env)) \<longrightarrow>
             map (req_stream \<circ> snd) (calls_of (fst (main c env l))) = [False]))"
proof -
  have k: "api_key (parse_args c env) =
      (case opt_api_key c of
         Some v \<Rightarrow> v
       | None \<Rightarrow> (case env ''CURSOR_API_KEY'' of
                    Some v \<Rightarrow> v
                  | None \<Rightarrow> ''sk-cursor-api-key''))"
    by (simp add: parse_args_def add_argument_def environ_get_def split: option.splits)
  have u: "base_url (parse_args c env) =
      (case opt_base_url c of
         Some v \<Rightarrow> v
       | None \<Rightarrow> (case env ''CURSOR_BASE_URL'' of
                    Some v \<Rightarrow> v
                  | None \<Rightarrow> ''http://localhost:3010/v1''))"
    by (simp add: parse_args_def add_argument_def environ_get_def split: option.splits)
  have s: "stream (parse_args c env) = opt_stream c"
    by (simp add: parse_args_def)
  have ctor: "constructor_calls_of (fst (main c env l)) =
      [(api_key (parse_args c env), base_url (parse_args c env))]"
    by (simp add: main_def constructor_calls_of_run)
  show ?thesis
  proof (cases "rejects l (api_key (parse_args c env)) (base_url (parse_args c env))")
    case True
    then have "calls_of (fst (main c env l)) = []"
      by (simp add: main_def calls_of_run_rejected)
    with True ctor k u show ?thesis by simp
  next
    case False
    then have "calls_of (fst (main c env l)) =
        [(the_client (parse_args c env), the_request (parse_args c env))]"
      by (simp add: main_def calls_of_run)
    with False ctor k u s show ?thesis by simp
  qed
qed

theorem flag_precedence_witness:
  "constructor_calls_of (fst (main (no_flags \<lparr> opt_api_key := Some ''f'' \<rparr>)
       [''CURSOR_API_KEY'' \<mapsto> ''e1'', ''CURSOR_BASE_URL'' \<mapsto> ''e2''] hello_library)) =
     [(''f'', ''e2'')]
   \<and> map fst (calls_of (fst (main (no_flags \<lparr> opt_api_key := Some ''f'' \<rparr>)
       [''CURSOR_API_KEY'' \<mapsto> ''e1'', ''CURSOR_BASE_URL'' \<mapsto> ''e2''] hello_library))) =
     [\<lparr> client_api_key = ''f'', client_base_url = ''e2'' \<rparr>]
   \<and> map fst (calls_of (fst (main no_flags Map.empty hello_library))) =
     [\<lparr> client_api_key = ''sk-cursor-api-key'',
        client_base_url = ''http://localhost:3010/v1'' \<rparr>]
   \<and> map (req_stream \<circ> snd) (calls_of (fst (main no_flags Map.empty hello_library))) = [False]"
  using flag_precedence [of "no_flags \<lparr> opt_api_key := Some ''f'' \<rparr>"
      "[''CURSOR_API_KEY'' \<mapsto> ''e1'', ''CURSOR_BASE_URL'' \<mapsto> ''e2'']" hello_library]
    flag_precedence [of no_flags Map.empty hello_library]
  by (simp add: no_flags_def hello_library_def library_with_def parse_args_def
        add_argument_def environ_get_def)

text \<open>
  C8, as the code has it. The script checks neither value, so the credential and the
  base address are what the precedence of C6 selects: they are non-empty when no flag
  was given the empty string and, where the flag is absent, the environment variable is
  not set to the empty string.
\<close>

theorem nonempty_credential:
  assumes "opt_api_key c \<noteq> Some []"
    and "opt_api_key c = None \<Longrightarrow> env ''CURSOR_API_KEY'' \<noteq> Some []"
    and "opt_base_url c \<noteq> Some []"
    and "opt_base_url c = None \<Longrightarrow> env ''CURSOR_BASE_URL'' \<noteq> Some []"
  shows "api_key (parse_args c env) \<noteq> [] \<and> base_url (parse_args c env) \<noteq> []"
  using assms
  by (auto simp add: parse_args_def add_argument_def environ_get_def split: option.splits)

theorem nonempty_credential_witness:
  "api_key (parse_args no_flags [''CURSOR_API_KEY'' \<mapsto> ''e1'']) = ''e1''
   \<and> api_key (parse_args no_flags [''CURSOR_API_KEY'' \<mapsto> ''e1'']) \<noteq> []
   \<and> base_url (parse_args no_flags [''CURSOR_API_KEY'' \<mapsto> ''e1'']) \<noteq> []"
  using nonempty_credential [of no_flags "[''CURSOR_API_KEY'' \<mapsto> ''e1'']"]
  by (simp add: no_flags_def parse_args_def add_argument_def environ_get_def)

text \<open>
  C8 as stated fails: with \<^verbatim>\<open>--api-key ""\<close> the credential that
  \<^verbatim>\<open>parse_args\<close> yields is the empty string, and line 29 calls the constructor
  with it.
\<close>

theorem empty_credential_counterexample:
  "api_key (parse_args empty_key_cli Map.empty) = []
   \<and> constructor_calls_of (fst (main empty_key_cli Map.empty hello_library)) =
       [([], ''http://localhost:3010/v1'')]"
  by (simp add: main_def run_def Let_def OpenAI_def constructor_calls_of_def
        parse_args_def add_argument_def environ_get_def empty_key_cli_def
        hello_library_def library_with_def)

subsection \<open>The response, not streamed\<close>

text \<open>
  C2, as the code has it. When the invocation of a run without streaming returns a
  response with at least one choice and with usage, the run succeeds and prints after
  the invocation: the content of the first choice, a line of 50 dashes, and then exactly
  four lines, which give the model of the response, its completion tokens, its prompt
  tokens and its total tokens.
\<close>

theorem plain_output:
  assumes "\<not> rejects l (api_key a) (base_url a)"
    and "\<not> stream a"
    and "snd (create l (the_client a) (the_request a)) = Inr resp"
    and "choices resp = ch # rest"
    and "usage resp = Some u"
  shows "run a l =
    (Construct (api_key a) (base_url a) # preamble a
       @ [Create (the_client a) (the_request a)
            (fst (create l (the_client a) (the_request a)))] @
       [Print (content (message ch) @ nl),
        Print (replicate 50 CHR ''-'' @ nl),
        Print (''Model: '' @ resp_model resp @ nl),
        Print (''Completion tokens: '' @ str_int (completion_tokens u) @ nl),
        Print (''Prompt tokens: '' @ str_int (prompt_tokens u) @ nl),
        Print (''Total tokens: '' @ str_int (total_tokens u) @ nl)],
     None)"
  using assms by (simp add: run_plain_eq)

theorem plain_output_witness:
  "run (hi_args False) hello_library =
    ([Construct ''k'' ''u'',
      Print (''Sending request to m...'' @ nl),
      Print (''Prompt: Hi'' @ nl),
      Print (replicate 50 CHR ''-'' @ nl),
      Create \<lparr> client_api_key = ''k'', client_base_url = ''u'' \<rparr>
        \<lparr> req_model = ''m'', req_messages = [\<lparr> role = ''user'', content = ''Hi'' \<rparr>],
          req_stream = False \<rparr> 1,
      Print (''Hello'' @ nl),
      Print (replicate 50 CHR ''-'' @ nl),
      Print (''Model: gpt'' @ nl),
      Print (''Completion tokens: 2'' @ nl),
      Print (''Prompt tokens: 5'' @ nl),
      Print (''Total tokens: 7'' @ nl)],
     None)"
  using plain_output [of hello_library "hi_args False" hello_response
      "\<lparr> message = \<lparr> role = ''assistant'', content = ''Hello'' \<rparr> \<rparr>" "[]"
      "\<lparr> prompt_tokens = 5, completion_tokens = 2, total_tokens = 7 \<rparr>"]
  by (simp add: hi_args_def hello_library_def library_with_def hello_response_def
        str_int_def str_nat.simps)

text \<open>
  C2 as stated fails: what is printed after the invocation is not the content followed
  by four lines only. For the answer \<open>Hello\<close> it has six lines, the line of dashes
  standing between the content and the four lines of metadata.
\<close>

theorem plain_output_counterexample:
  "count_list (stdout_of (drop 5 (fst (run (hi_args False) hello_library)))) CHR 0x0A = 6
   \<and> stdout_of (drop 5 (fst (run (hi_args False) hello_library))) \<noteq>
       ''Hello'' @ nl @ ''Model: gpt'' @ nl @ ''Completion tokens: 2'' @ nl
       @ ''Prompt tokens: 5'' @ nl @ ''Total tokens: 7'' @ nl"
  by (simp add: run_def Let_def OpenAI_def print_def print_end_def dashes stdout_of_def
        hi_args_def hello_library_def library_with_def hello_response_def str_int_def
        str_nat.simps)

text \<open>
  C4, as the code has it. When the constructor has returned and the invocation raises,
  the run ends with the error of the invocation and a status that is not 0; the
  invocation is the last event of the trace and the only one, so the script does not
  invoke again, nothing is printed after it and the standard output holds the three
  prints of the preamble only. When a stream whose chunks all have a choice raises after
  its last chunk, the run ends with that error and a status that is not 0, having
  printed the fragments received and nothing else.
\<close>

theorem call_failure:
  assumes "\<not> rejects l (api_key a) (base_url a)"
  shows "((if stream a then snd (create_stream l (the_client a) (the_request a)) = Inl f
           else snd (create l (the_client a) (the_request a)) = Inl f) \<longrightarrow>
        run a l =
          (Construct (api_key a) (base_url a) # preamble a
             @ [Create (the_client a) (the_request a)
                  (if stream a then fst (create_stream l (the_client a) (the_request a))
                   else fst (create l (the_client a) (the_request a)))],
           Some (APIError f))
        \<and> stdout_of (fst (run a l)) = stdout_of (preamble a)
        \<and> calls_of (fst (run a l)) = [(the_client a, the_request a)]
        \<and> exit_status (snd (run a l)) \<noteq> 0)
   \<and> (stream a
        \<and> snd (create_stream l (the_client a) (the_request a)) = Inr (chunks, Some f)
        \<and> (\<forall>c\<in>set chunks. chunk_choices c \<noteq> []) \<longrightarrow>
        run a l =
          (Construct (api_key a) (base_url a) # preamble a
             @ [Create (the_client a) (the_request a)
                  (fst (create_stream l (the_client a) (the_request a)))]
             @ map Print (fragments chunks),
           Some (APIError f))
        \<and> exit_status (snd (run a l)) \<noteq> 0)"
proof (intro conjI impI)
  assume h: "if stream a then snd (create_stream l (the_client a) (the_request a)) = Inl f
             else snd (create l (the_client a) (the_request a)) = Inl f"
  show r: "run a l =
      (Construct (api_key a) (base_url a) # preamble a
         @ [Create (the_client a) (the_request a)
              (if stream a then fst (create_stream l (the_client a) (the_request a))
               else fst (create l (the_client a) (the_request a)))],
       Some (APIError f))"
  proof (cases "stream a")
    case True
    with assms h show ?thesis by (simp add: run_stream_failure_eq)
  next
    case False
    with assms h show ?thesis by (simp add: run_plain_failure_eq)
  qed
  from r show "stdout_of (fst (run a l)) = stdout_of (preamble a)"
    by (simp add: stdout_of_def)
  from assms show "calls_of (fst (run a l)) = [(the_client a, the_request a)]"
    by (rule calls_of_run)
  from r show "exit_status (snd (run a l)) \<noteq> 0" by simp
next
  assume h: "stream a
      \<and> snd (create_stream l (the_client a) (the_request a)) = Inr (chunks, Some f)
      \<and> (\<forall>c\<in>set chunks. chunk_choices c \<noteq> [])"
  let ?t4 = "prologue a (fst (create_stream l (the_client a) (the_request a)))"
  from h have s: "stream a" by (rule conjunct1)
  from h have c: "snd (create_stream l (the_client a) (the_request a)) = Inr (chunks, Some f)"
    by (rule conjunct1 [OF conjunct2])
  from h have w: "\<forall>c\<in>set chunks. chunk_choices c \<noteq> []"
    by (rule conjunct2 [OF conjunct2])
  from w have "consume chunks (Some f) ?t4 =
      (?t4 @ map Print (fragments chunks), map_option APIError (Some f))"
    by (rule consume_wellformed)
  with run_stream_eq [OF assms s c] show r: "run a l =
      (Construct (api_key a) (base_url a) # preamble a
         @ [Create (the_client a) (the_request a)
              (fst (create_stream l (the_client a) (the_request a)))]
         @ map Print (fragments chunks),
       Some (APIError f))"
    by simp
  then show "exit_status (snd (run a l)) \<noteq> 0" by simp
qed

theorem call_failure_witness:
  "run (hi_args False) failing_library =
     ([Construct ''k'' ''u'',
       Print (''Sending request to m...'' @ nl),
       Print (''Prompt: Hi'' @ nl),
       Print (replicate 50 CHR ''-'' @ nl),
       Create \<lparr> client_api_key = ''k'', client_base_url = ''u'' \<rparr>
         \<lparr> req_model = ''m'', req_messages = [\<lparr> role = ''user'', content = ''Hi'' \<rparr>],
           req_stream = False \<rparr> 3],
      Some (APIError TransportFailure))
   \<and> exit_status (snd (run (hi_args False) failing_library)) = 1
   \<and> exit_status (snd (run (hi_args True) failing_library)) = 1
   \<and> run (hi_args True) partial_library =
     ([Construct ''k'' ''u'',
       Print (''Sending request to m...'' @ nl),
       Print (''Prompt: Hi'' @ nl),
       Print (replicate 50 CHR ''-'' @ nl),
       Create \<lparr> client_api_key = ''k'', client_base_url = ''u'' \<rparr>
         \<lparr> req_model = ''m'', req_messages = [\<lparr> role = ''user'', content = ''Hi'' \<rparr>],
           req_stream = True \<rparr> 1,
       Print ''Hel''],
      Some (APIError TransportFailure))"
  using call_failure [of failing_library "hi_args False" TransportFailure]
    call_failure [of failing_library "hi_args True" AuthenticationFailure]
    call_failure [of partial_library "hi_args True" TransportFailure
      "[\<lparr> chunk_choices = [\<lparr> delta_content = Some ''Hel'' \<rparr>] \<rparr>]"]
  by (simp add: hi_args_def failing_library_def partial_library_def library_with_def
        List.map_filter_simps)

text \<open>
  C4 as stated fails. A response that the library returns with a choice but without
  usage makes the run print the content, the dashes and the line of the model before
  line 67 raises \<^verbatim>\<open>AttributeError\<close>; and for the one invocation of a run against
  an endpoint that fails, a library that retries sends three requests.
\<close>

theorem call_failure_counterexample:
  "run (hi_args False) partial_library =
     ([Construct ''k'' ''u'',
       Print (''Sending request to m...'' @ nl),
       Print (''Prompt: Hi'' @ nl),
       Print (replicate 50 CHR ''-'' @ nl),
       Create \<lparr> client_api_key = ''k'', client_base_url = ''u'' \<rparr>
         \<lparr> req_model = ''m'', req_messages = [\<lparr> role = ''user'', content = ''Hi'' \<rparr>],
           req_stream = False \<rparr> 1,
       Print (''Hello'' @ nl),
       Print (replicate 50 CHR ''-'' @ nl),
       Print (''Model: gpt'' @ nl)],
      Some AttributeError)
   \<and> exit_status (snd (run (hi_args False) partial_library)) = 1
   \<and> requests_sent (fst (run (hi_args False) failing_library)) = 3"
  by (simp add: run_def Let_def OpenAI_def print_def print_end_def dashes requests_sent_def
        hi_args_def partial_library_def failing_library_def library_with_def
        hello_response_def)

subsection \<open>The response, streamed\<close>

text \<open>
  C9. The loop reads \<^verbatim>\<open>chunk.choices[0]\<close> of every chunk it reaches. It runs to
  the end of the stream without an exception exactly when every chunk has at least one
  choice and the stream itself ends without failure, and it raises \<^verbatim>\<open>IndexError\<close>
  exactly when some chunk has no choice.
\<close>

theorem first_choice_index:
  "(snd (consume cs fin tr) = None) = ((\<forall>c\<in>set cs. chunk_choices c \<noteq> []) \<and> fin = None)
   \<and> (snd (consume cs fin tr) = Some IndexError) = (\<exists>c\<in>set cs. chunk_choices c = [])"
proof (cases "\<forall>c\<in>set cs. chunk_choices c \<noteq> []")
  case True
  then have "snd (consume cs fin tr) = map_option APIError fin"
    by (simp add: consume_wellformed)
  with True show ?thesis by (cases fin) auto
next
  case False
  then have "\<exists>c\<in>set cs. chunk_choices c = []" by simp
  then have "snd (consume cs fin tr) = Some IndexError" by (rule consume_empty_choices)
  with False show ?thesis by simp
qed

theorem first_choice_index_witness:
  "snd (consume hello_chunks None []) = None
   \<and> snd (consume [\<lparr> chunk_choices = [\<lparr> delta_content = Some ''a'' \<rparr>] \<rparr>,
                    \<lparr> chunk_choices = [] \<rparr>] None []) = Some IndexError"
  using first_choice_index [of hello_chunks None "[]"]
    first_choice_index [of "[\<lparr> chunk_choices = [\<lparr> delta_content = Some ''a'' \<rparr>] \<rparr>,
                    \<lparr> chunk_choices = [] \<rparr>]" None "[]"]
  by (simp add: hello_chunks_def)

text \<open>
  C3, as the code has it. In a streaming run whose chunks all have at least one choice,
  the standard output is the preamble, then the content fragments of the chunks that are
  not \<^verbatim>\<open>None\<close>, concatenated in the order of arrival with nothing between them,
  and then, when the stream ends without failure, the newline characters that end the
  run. A chunk without content adds no character.
\<close>

theorem stream_output:
  assumes "\<not> rejects l (api_key a) (base_url a)"
    and "stream a"
    and "snd (create_stream l (the_client a) (the_request a)) = Inr (chunks, fin)"
    and "\<forall>c\<in>set chunks. chunk_choices c \<noteq> []"
  shows "stdout_of (fst (run a l)) =
    stdout_of (preamble a) @ concat (fragments chunks)
      @ (case fin of None \<Rightarrow> nl @ nl | Some f \<Rightarrow> [])"
proof -
  let ?t4 = "prologue a (fst (create_stream l (the_client a) (the_request a)))"
  from assms(4) have c: "consume chunks fin ?t4 =
      (?t4 @ map Print (fragments chunks), map_option APIError fin)"
    by (rule consume_wellformed)
  have t4: "stdout_of ?t4 = stdout_of (preamble a)"
    by (simp add: stdout_of_def)
  show ?thesis
  proof (cases fin)
    case None
    with c run_stream_eq [OF assms(1,2,3)] have "fst (run a l) =
        ?t4 @ map Print (fragments chunks) @ [Print [CHR 0x0A, CHR 0x0A]]"
      by simp
    then have "stdout_of (fst (run a l)) =
        stdout_of ?t4 @ concat (fragments chunks) @ stdout_of [Print [CHR 0x0A, CHR 0x0A]]"
      by (simp only: stdout_of_append stdout_of_prints)
    with None t4 show ?thesis by (simp add: stdout_of_def)
  next
    case (Some f)
    with c run_stream_eq [OF assms(1,2,3)] have "fst (run a l) =
        ?t4 @ map Print (fragments chunks)"
      by simp
    then have "stdout_of (fst (run a l)) = stdout_of ?t4 @ concat (fragments chunks)"
      by (simp only: stdout_of_append stdout_of_prints)
    with Some t4 show ?thesis by simp
  qed
qed

theorem stream_output_witness:
  "stdout_of (fst (run (hi_args True) hello_library)) =
     ''Sending request to m...'' @ nl @ ''Prompt: Hi'' @ nl @ replicate 50 CHR ''-'' @ nl
     @ ''Hello'' @ nl @ nl
   \<and> stdout_of (fst (run (hi_args True) partial_library)) =
     ''Sending request to m...'' @ nl @ ''Prompt: Hi'' @ nl @ replicate 50 CHR ''-'' @ nl
     @ ''Hel''"
  using stream_output [of hello_library "hi_args True" hello_chunks None]
    stream_output [of partial_library "hi_args True"
      "[\<lparr> chunk_choices = [\<lparr> delta_content = Some ''Hel'' \<rparr>] \<rparr>]" "Some TransportFailure"]
  by (simp add: hi_args_def hello_library_def partial_library_def library_with_def
        hello_chunks_def stdout_of_def List.map_filter_simps)

text \<open>
  C3 as stated fails for a sequence of chunks one of which has no choice: of the
  fragments \<open>a\<close> and \<open>b\<close>, with such a chunk between them, the run prints \<open>a\<close> and
  ends with \<^verbatim>\<open>IndexError\<close>; \<open>b\<close> and the trailing newline are never printed.
\<close>

theorem stream_output_counterexample:
  "run (hi_args True) gap_library =
     ([Construct ''k'' ''u'',
       Print (''Sending request to m...'' @ nl),
       Print (''Prompt: Hi'' @ nl),
       Print (replicate 50 CHR ''-'' @ nl),
       Create \<lparr> client_api_key = ''k'', client_base_url = ''u'' \<rparr>
         \<lparr> req_model = ''m'', req_messages = [\<lparr> role = ''user'', content = ''Hi'' \<rparr>],
           req_stream = True \<rparr> 1,
       Print ''a''],
      Some IndexError)
   \<and> stdout_of (fst (run (hi_args True) gap_library)) =
     ''Sending request to m...'' @ nl @ ''Prompt: Hi'' @ nl @ replicate 50 CHR ''-'' @ nl
     @ ''a''"
  by (simp add: run_def Let_def OpenAI_def print_def print_end_def dashes stdout_of_def
        hi_args_def gap_library_def library_with_def gap_chunks_def)

text \<open>
  C7, as the code has it. Once the loop has consumed the whole stream without an
  exception, the run prints one more thing and ends: \<^verbatim>\<open>print("\n")\<close>, which writes
  two newline characters, the one of its argument and the one that ends every
  \<^verbatim>\<open>print\<close>.
\<close>

theorem after_stream:
  assumes "\<not> rejects l (api_key a) (base_url a)"
    and "stream a"
    and "snd (create_stream l (the_client a) (the_request a)) = Inr (chunks, fin)"
    and "snd (consume chunks fin
           (Construct (api_key a) (base_url a) # preamble a
              @ [Create (the_client a) (the_request a)
                   (fst (create_stream l (the_client a) (the_request a)))])) = None"
  shows "run a l =
    (fst (consume chunks fin
           (Construct (api_key a) (base_url a) # preamble a
              @ [Create (the_client a) (the_request a)
                   (fst (create_stream l (the_client a) (the_request a)))]))
       @ [Print [CHR 0x0A, CHR 0x0A]], None)"
proof -
  let ?t4 = "prologue a (fst (create_stream l (the_client a) (the_request a)))"
  obtain t5 e where k: "consume chunks fin ?t4 = (t5, e)"
    by (cases "consume chunks fin ?t4")
  with assms(4) have "e = None" by simp
  with assms(1,2,3) k show ?thesis by (simp add: run_stream_eq)
qed

theorem after_stream_witness:
  "run (hi_args True) hello_library =
     ([Construct ''k'' ''u'',
       Print (''Sending request to m...'' @ nl),
       Print (''Prompt: Hi'' @ nl),
       Print (replicate 50 CHR ''-'' @ nl),
       Create \<lparr> client_api_key = ''k'', client_base_url = ''u'' \<rparr>
         \<lparr> req_model = ''m'', req_messages = [\<lparr> role = ''user'', content = ''Hi'' \<rparr>],
           req_stream = True \<rparr> 1,
       Print ''Hel'', Print ''lo'', Print [CHR 0x0A, CHR 0x0A]],
      None)"
  using after_stream [of hello_library "hi_args True" hello_chunks None]
  by (simp add: hi_args_def hello_library_def library_with_def hello_chunks_def print_end_def)

text \<open>
  C7 as stated fails: after the streamed text \<open>Hello\<close> the standard output ends
  with two newline characters, not with a single one.
\<close>

theorem after_stream_counterexample:
  "stdout_of (fst (run (hi_args True) hello_library)) =
     ''Sending request to m...'' @ nl @ ''Prompt: Hi'' @ nl @ replicate 50 CHR ''-'' @ nl
     @ ''Hello'' @ [CHR 0x0A, CHR 0x0A]
   \<and> stdout_of (fst (run (hi_args True) hello_library)) \<noteq>
     ''Sending request to m...'' @ nl @ ''Prompt: Hi'' @ nl @ replicate 50 CHR ''-'' @ nl
     @ ''Hello'' @ [CHR 0x0A]"
  by (simp add: run_def Let_def OpenAI_def print_def print_end_def dashes stdout_of_def
        hi_args_def hello_library_def library_with_def hello_chunks_def)

end
